theory Spec2Isabelle
  imports Complex_Main "HOL-Library.Multiset"
begin

section \<open>Configuration\<close>

text \<open>
  The notebook imports its enumerations from modules it does not contain. Only the members
  it names are known; every other member of an enumeration is kept apart from them by a
  constructor of its own.
\<close>

datatype ModelArchitecture = MATRIX_FACTORIZATION | OTHER_ARCHITECTURE nat

datatype RatingFormat = RATING | BINARY | OTHER_FORMAT nat

datatype DatasetSource = MOVIELENS | OTHER_SOURCE nat

record Params =
  learning_rate :: real
  weight_decay :: real
  embedding_dim :: nat
  dropout :: real
  batch_size :: nat
  eval_size :: nat
  max_rows :: nat
  model_architecture :: ModelArchitecture
  dataset_source :: DatasetSource
  rating_format :: RatingFormat
  max_users :: "nat option"
  num_epochs :: nat
  do_eval :: bool
  eval_every :: nat
  max_batches :: nat

definition Params_class :: Params where
  "Params_class =
     \<lparr> learning_rate = 5 / 1000, weight_decay = 1 / 100000, embedding_dim = 32,
       dropout = 2 / 10, batch_size = 32, eval_size = 100, max_rows = 1000,
       model_architecture = MATRIX_FACTORIZATION, dataset_source = MOVIELENS,
       rating_format = RATING, max_users = None, num_epochs = 100, do_eval = True,
       eval_every = 5, max_batches = 10 \<rparr>"

section \<open>Data\<close>

text \<open>
  A feature tensor of shape (n, c) is the list of its n rows; its entries are the
  categorical ids (stored as floats by the loader, read back as integers by the code).
  The ratings of a batch are a vector of n reals. The recommender returns one prediction
  for every row it is given, as a tensor of shape (n) or (n, 1); the model keeps the list
  of these predictions. Where the shape of a tensor matters it is carried along: a tensor
  is its shape and its entries in row-major order.
\<close>

type_synonym features = "nat list list"

type_synonym batch = "features \<times> real list"

datatype error = RuntimeError | IndexError | NameError | KeyError | ValueError

record tensor =
  shape :: "nat list"
  data :: "real list"

text \<open>A vector as a tensor of one axis.\<close>

definition vec :: "real list \<Rightarrow> tensor" where
  "vec xs = \<lparr> shape = [length xs], data = xs \<rparr>"

text \<open>\<open>t.squeeze()\<close> drops every axis of size one and keeps the entries.\<close>

definition squeeze :: "tensor \<Rightarrow> tensor" where
  "squeeze t = t\<lparr>shape := filter (\<lambda>n. n \<noteq> 1) (shape t)\<rparr>"

datatype loss = BCELoss | MSELoss

record log_dict =
  eval_loss :: real
  ndcg :: real
  novelty :: real
  prediction_coverage :: real
  catalog_coverage :: real
  personalization :: real
  roc_auc :: real

text \<open>What the program does to the world outside it, in the order it does it.\<close>

datatype event =
    GetDevice
  | PrintLine string
  | LoadDataset RatingFormat nat "nat option"
  | RandomSplit int nat
  | NewDataLoader nat
  | NewModel ModelArchitecture nat RatingFormat
  | ModelTrainMode
  | NewModule loss bool
  | WandbInit
  | WandbWatch
  | NewAdamW real real
  | NewCosineAnnealingLR nat
  | WandbLogTrain real
  | NextTrainBatch
  | Display nat "nat list" "nat list"
  | PrintLog log_dict
  | WandbLogEval log_dict

text \<open>
  What the notebook calls but does not define is a parameter: the loss modules of the
  tensor library, which return a loss or raise, and the functions of the \<open>metrics\<close>
  module, which are taken to return, as are the recommender and the method of the dataset
  that displays a recommendation. Two choices that the libraries leave open are
  parameters too: \<open>tie_order c xs\<close> is the order in which the c-th call of
  \<open>torch.topk\<close> in a run visits the positions of \<open>xs\<close>, which decides between equal
  entries, and \<open>set_order xs\<close> is the order in which Python lists the set of the
  elements of \<open>xs\<close>.
\<close>

record lib =
  loss_value :: "loss \<Rightarrow> tensor \<Rightarrow> tensor \<Rightarrow> error + real"
  tie_order :: "nat \<Rightarrow> real list \<Rightarrow> nat list"
  set_order :: "nat list \<Rightarrow> nat list"
  ndcg_score :: "real list \<Rightarrow> real list \<Rightarrow> real"
  novelty_score :: "real list list \<Rightarrow> (nat \<rightharpoonup> nat) \<Rightarrow> nat \<Rightarrow> nat \<Rightarrow> real"
  prediction_coverage_score :: "real list list \<Rightarrow> nat list \<Rightarrow> real"
  catalog_coverage_score :: "real list list \<Rightarrow> nat list \<Rightarrow> nat \<Rightarrow> real"
  personalization_score :: "real list list \<Rightarrow> real"
  roc_auc_score :: "bool list \<Rightarrow> bool list \<Rightarrow> real"

section \<open>RecommenderModule\<close>

record RecommenderModule =
  recommender :: "features \<times> real list option \<Rightarrow> real list"
  loss_fn :: loss
  use_wandb :: bool

definition RecommenderModule_init ::
  "Params \<Rightarrow> (features \<times> real list option \<Rightarrow> real list) \<Rightarrow> bool \<Rightarrow> RecommenderModule" where
  "RecommenderModule_init P rec uw =
     \<lparr> recommender = rec,
       loss_fn = (if rating_format P = BINARY \<and> model_architecture P \<noteq> MATRIX_FACTORIZATION
                  then BCELoss else MSELoss),
       use_wandb = uw \<rparr>"

text \<open>
  \<open>training_step\<close> squeezes the predictions, which on a batch of one row leaves a
  tensor without axes, and hands them to the loss. It returns the loss, or raises what
  the loss raises; its only effect is the call of the tracker, appended to the trace.
\<close>

definition training_step ::
  "lib \<Rightarrow> RecommenderModule \<Rightarrow> batch \<Rightarrow> event list \<Rightarrow> error + real \<times> event list" where
  "training_step L m b tr =
     (let ratings = snd b;
          preds = squeeze (vec (recommender m (fst b, Some ratings)))
      in case loss_value L (loss_fn m) preds (vec ratings) of
           Inl e \<Rightarrow> Inl e
         | Inr l \<Rightarrow> Inr (l, if use_wandb m then tr @ [WandbLogTrain l] else tr))"

section \<open>Helpers of the evaluation routine\<close>

text \<open>
  \<open>torch.topk(xs, k).indices\<close>: the positions of the k largest entries, largest first;
  it raises when k exceeds the number of entries. Which of several equal entries comes
  first, or is taken at all, the library leaves open: the positions are sorted by entry,
  stably, from the order \<open>tie\<close> in which the call visits them (any order of the
  positions; the order of the positions themselves when \<open>tie\<close> does not name each
  position once). Every choice between equal entries arises from some visiting order. On a
  tensor without axes the call sees one entry, as on a vector of one entry.
\<close>

definition visit_order :: "(real list \<Rightarrow> nat list) \<Rightarrow> real list \<Rightarrow> nat list" where
  "visit_order tie xs =
     (if sort (tie xs) = [0..<length xs] then tie xs else [0..<length xs])"

definition topk :: "(real list \<Rightarrow> nat list) \<Rightarrow> real list \<Rightarrow> nat \<Rightarrow> error + nat list" where
  "topk tie xs k =
     (if k \<le> length xs
      then Inr (take k (sort_key (\<lambda>i. - (xs ! i)) (visit_order tie xs)))
      else Inl RuntimeError)"

text \<open>
  \<open>np.empty((r, c))\<close> allocates without initialising: the contents are whatever the
  memory held, here the parameter \<open>mem\<close>.
\<close>

definition np_empty :: "(nat \<Rightarrow> nat \<Rightarrow> real) \<Rightarrow> nat \<Rightarrow> nat \<Rightarrow> real list list" where
  "np_empty mem r c = map (\<lambda>i. map (mem i) [0..<c]) [0..<r]"

text \<open>\<open>features[:, j]\<close>.\<close>

definition column :: "nat \<Rightarrow> features \<Rightarrow> error + nat list" where
  "column j fs =
     (if list_all (\<lambda>r. j < length r) fs then Inr (map (\<lambda>r. r ! j) fs) else Inl IndexError)"

text \<open>\<open>M[i] = r\<close> on a two-dimensional array.\<close>

definition set_row :: "real list list \<Rightarrow> nat \<Rightarrow> real list \<Rightarrow> error + real list list" where
  "set_row M i r = (if i < length M then Inr (M[i := r]) else Inl IndexError)"

text \<open>
  \<open>list(set(xs))\<close>: the distinct elements of \<open>xs\<close>, in the order \<open>ord\<close> in which
  Python lists them (in the order of \<open>remdups\<close> when \<open>ord\<close> does not list exactly
  these elements once each).
\<close>

definition set_list :: "(nat list \<Rightarrow> nat list) \<Rightarrow> nat list \<Rightarrow> nat list" where
  "set_list ord xs =
     (if distinct (ord xs) \<and> set (ord xs) = set xs then ord xs else remdups xs)"

text \<open>The \<open>defaultdict(int)\<close> that counts how often each item occurs.\<close>

definition count_items :: "nat list \<Rightarrow> (nat \<rightharpoonup> nat)" where
  "count_items items =
     fold (\<lambda>it d. d(it \<mapsto> (case d it of None \<Rightarrow> 0 | Some c \<Rightarrow> c) + 1)) items Map.empty"

definition astype_bool :: "real list \<Rightarrow> bool list" where
  "astype_bool xs = map (\<lambda>x. x \<noteq> 0) xs"

definition np_unique :: "bool list \<Rightarrow> bool list" where
  "np_unique bs = remdups (sort bs)"

text \<open>A \<open>for\<close> loop whose body may raise: the first error ends it.\<close>

fun for_each :: "('s \<Rightarrow> 'a \<Rightarrow> error + 's) \<Rightarrow> 'a list \<Rightarrow> 's \<Rightarrow> error + 's" where
  "for_each f [] s = Inr s"
| "for_each f (x # xs) s = (case f s x of Inl e \<Rightarrow> Inl e | Inr s' \<Rightarrow> for_each f xs s')"

section \<open>eval_step\<close>

text \<open>
  The local variables of \<open>eval_step\<close> that its loop writes, and the trace of its calls
  to the outside. \<open>roc_auc_var\<close> is \<open>None\<close> while the variable \<open>roc_auc\<close> is unbound.
\<close>

record eval_state =
  user_item_ratings :: "real list list"
  true_item_ratings :: "real list list"
  roc_auc_var :: "real option"
  trace :: "event list"

text \<open>
  One pass through the body of \<open>for i, user_id in enumerate(users)\<close>. The two calls
  of \<open>torch.topk\<close> in pass \<open>i\<close> are calls \<open>2 * i\<close> and \<open>2 * i + 1\<close> of the run.
\<close>

definition eval_iter ::
  "lib \<Rightarrow> RecommenderModule \<Rightarrow> nat list \<Rightarrow> nat list \<Rightarrow> real list \<Rightarrow> real \<Rightarrow> nat \<Rightarrow>
   eval_state \<Rightarrow> nat \<times> nat \<Rightarrow> error + eval_state" where
  "eval_iter L m users items ratings loss k st iu =
     (let i = fst iu; user_id = snd iu;
          user_batch = map (\<lambda>it. [user_id, it]) items;
          user_preds = recommender m (user_batch, None)
      in case topk (tie_order L (2 * i)) user_preds k of Inl e \<Rightarrow> Inl e | Inr top_k_preds \<Rightarrow>
        (case set_row (user_item_ratings st) user_id (map real top_k_preds) of
           Inl e \<Rightarrow> Inl e | Inr uir \<Rightarrow>
        (case topk (tie_order L (2 * i + 1)) ratings k of Inl e \<Rightarrow> Inl e | Inr true_top_k \<Rightarrow>
        (case set_row (true_item_ratings st) user_id (map real true_top_k) of
           Inl e \<Rightarrow> Inl e | Inr tir \<Rightarrow>
        (let tr1 = (if i = 0 then trace st @ [Display user_id top_k_preds true_top_k]
                    else trace st);
             unique_item_catalog = set_list (set_order L) items;
             item_popularity = count_items items;
             num_users = length (set_list (set_order L) users);
             num_items = length (set_list (set_order L) items);
             nov = novelty_score L uir item_popularity num_users num_items;
             user_rating_preds = concat uir;
             user_rating_ref = concat uir;
             pc = prediction_coverage_score L uir unique_item_catalog;
             cc = catalog_coverage_score L uir unique_item_catalog k;
             pers = personalization_score L uir;
             ref_bool = astype_bool user_rating_ref;
             preds_bool = astype_bool user_rating_preds;
             ra = (if length (np_unique ref_bool) = 2 \<and> length (np_unique preds_bool) = 2
                   then Some (roc_auc_score L ref_bool preds_bool) else roc_auc_var st)
         in case ra of None \<Rightarrow> Inl NameError | Some r \<Rightarrow>
           (let d = \<lparr> eval_loss = loss,
                      ndcg = ndcg_score L user_rating_preds user_rating_ref,
                      novelty = nov, prediction_coverage = pc, catalog_coverage = cc,
                      personalization = pers, roc_auc = r \<rparr>;
                tr2 = tr1 @ [PrintLog d];
                tr3 = (if use_wandb m then tr2 @ [WandbLogEval d] else tr2)
            in Inr \<lparr> user_item_ratings = uir, true_item_ratings = tir,
                     roc_auc_var = ra, trace = tr3 \<rparr>))))))"

text \<open>
  \<open>eval_step\<close> returns nothing; the model returns the final values of its locals and
  the trace, or the error that ended it. \<open>mem1\<close> and \<open>mem2\<close> are the contents of the
  two uninitialised arrays.
\<close>

definition eval_step ::
  "lib \<Rightarrow> RecommenderModule \<Rightarrow> (nat \<Rightarrow> nat \<Rightarrow> real) \<Rightarrow> (nat \<Rightarrow> nat \<Rightarrow> real) \<Rightarrow>
   batch \<Rightarrow> nat \<Rightarrow> event list \<Rightarrow> error + eval_state" where
  "eval_step L m mem1 mem2 b k tr =
     (let features = fst b; ratings = snd b
      in case column 0 features of Inl e \<Rightarrow> Inl e | Inr users \<Rightarrow>
        (case column 1 features of Inl e \<Rightarrow> Inl e | Inr items \<Rightarrow>
        (if users = [] then Inl RuntimeError
         else
           (let max_user_id = Max (set users) + 1;
                preds = squeeze (vec (recommender m (features, Some ratings)))
            in case loss_value L (loss_fn m) preds (vec ratings) of
                 Inl e \<Rightarrow> Inl e
               | Inr loss \<Rightarrow>
                   for_each (eval_iter L m users items ratings loss k) (enumerate 0 users)
                     \<lparr> user_item_ratings = np_empty mem1 max_user_id k,
                       true_item_ratings = np_empty mem2 max_user_id k,
                       roc_auc_var = None, trace = tr \<rparr>))))"

text \<open>The dictionaries a trace printed, in order.\<close>

fun printed :: "event list \<Rightarrow> log_dict list" where
  "printed [] = []"
| "printed (PrintLog d # es) = d # printed es"
| "printed (e # es) = printed es"

text \<open>
  \<open>is_top_k cands xs k r\<close>: the list \<open>r\<close> names k distinct positions among \<open>cands\<close>,
  and no other candidate position holds a larger entry of \<open>xs\<close> than one of them.
\<close>

definition is_top_k :: "nat list \<Rightarrow> real list \<Rightarrow> nat \<Rightarrow> nat list \<Rightarrow> bool" where
  "is_top_k cands xs k r =
     (length r = k \<and> distinct r \<and> list_all (\<lambda>i. i \<in> set cands) r \<and>
      list_all (\<lambda>i. list_all (\<lambda>j. j \<in> set r \<or> xs ! j \<le> xs ! i) cands) r)"

text \<open>The positions of a batch that hold a rating given by user \<open>u\<close>.\<close>

definition rated_by :: "nat list \<Rightarrow> nat \<Rightarrow> nat list" where
  "rated_by users u = filter (\<lambda>i. users ! i = u) [0..<length users]"

section \<open>get_feature_embeddings\<close>

text \<open>
  An embedding table is the weight matrix of \<open>nn.Embedding\<close>, one row of \<open>dim\<close>
  entries per id.
\<close>

record Embedding =
  dim :: nat
  weight :: "real list list"

text \<open>
  The attributes of the model that the function reads. The class that sets them is not
  part of the notebook, so they are taken as given.
\<close>

record RecModel =
  emb_columns :: "string list"
  emb_dict :: "string \<rightharpoonup> Embedding"
  emb_in_size :: nat

text \<open>\<open>emb(ids)\<close>: one row of the table per id; an id outside the table raises.\<close>

definition embedding_forward :: "Embedding \<Rightarrow> nat list \<Rightarrow> error + tensor" where
  "embedding_forward e ids =
     (if list_all (\<lambda>i. i < length (weight e)) ids
      then Inr \<lparr> shape = [length ids, dim e], data = concat (map (\<lambda>i. weight e ! i) ids) \<rparr>
      else Inl IndexError)"

text \<open>
  \<open>torch.stack(ts, dim=1)\<close>: the tensors must be there and agree in shape; the new axis
  comes second, so entry block \<open>i\<close> of the result holds block \<open>i\<close> of every tensor in turn.
\<close>

definition stack_dim1 :: "tensor list \<Rightarrow> error + tensor" where
  "stack_dim1 ts =
     (case ts of
        [] \<Rightarrow> Inl RuntimeError
      | t # _ \<Rightarrow>
          if list_all (\<lambda>u. shape u = shape t) ts
          then (case shape t of
                  [] \<Rightarrow> Inl IndexError
                | n # rest \<Rightarrow>
                    Inr \<lparr> shape = n # length ts # rest,
                          data = concat (map (\<lambda>i. concat (map (\<lambda>u.
                                   take (prod_list rest) (drop (i * prod_list rest) (data u))) ts))
                                   [0..<n]) \<rparr>)
          else Inl RuntimeError)"

text \<open>
  \<open>t.view(-1, s)\<close>: the first size is inferred; it raises when \<open>s\<close> is zero or does
  not divide the number of entries.
\<close>

definition view_rows :: "tensor \<Rightarrow> nat \<Rightarrow> error + tensor" where
  "view_rows t s =
     (if s \<noteq> 0 \<and> prod_list (shape t) mod s = 0
      then Inr \<lparr> shape = [prod_list (shape t) div s, s], data = data t \<rparr>
      else Inl RuntimeError)"

text \<open>
  The body of the loop over \<open>enumerate(self.emb_columns)\<close>, and the function. What the
  function prints is left out.
\<close>

definition embed_column ::
  "RecModel \<Rightarrow> features \<Rightarrow> tensor list \<Rightarrow> nat \<times> string \<Rightarrow> error + tensor list" where
  "embed_column M features embeddings ic =
     (case emb_dict M (snd ic) of
        None \<Rightarrow> Inl KeyError
      | Some emb \<Rightarrow>
          (case column (fst ic) features of
             Inl e \<Rightarrow> Inl e
           | Inr feature_column \<Rightarrow>
               (case embedding_forward emb feature_column of
                  Inl e \<Rightarrow> Inl e
                | Inr embedded_column \<Rightarrow> Inr (embeddings @ [embedded_column]))))"

definition get_feature_embeddings :: "RecModel \<Rightarrow> batch \<Rightarrow> bool \<Rightarrow> error + tensor" where
  "get_feature_embeddings M b concat_flag =
     (case for_each (embed_column M (fst b)) (enumerate 0 (emb_columns M)) [] of
        Inl e \<Rightarrow> Inl e
      | Inr embeddings \<Rightarrow>
          (case stack_dim1 embeddings of
             Inl e \<Rightarrow> Inl e
           | Inr stacked \<Rightarrow>
               if concat_flag then view_rows (squeeze stacked) (emb_in_size M)
               else Inr (squeeze stacked)))"

section \<open>The driver cell\<close>






section \<open>Example inputs\<close>

text \<open>
  A recommender under which user 0 prefers items with small ids and every other user
  items with large ids; library functions that show what they were called with, with a
  loss that raises on tensors of different shape when it is the BCE loss, as the library's
  does; a batch of two ratings by two users, a batch of three ratings by one user and a
  batch of one row.
\<close>

definition example_recommender :: "features \<times> real list option \<Rightarrow> real list" where
  "example_recommender b =
     map (\<lambda>r. case r of [u, it] \<Rightarrow> (if u = 0 then 100 - real it else real it) | _ \<Rightarrow> 0) (fst b)"

definition example_module :: RecommenderModule where
  "example_module = RecommenderModule_init Params_class example_recommender False"

definition example_lib :: lib where
  "example_lib =
     \<lparr> loss_value = (\<lambda>l p t. if l = BCELoss \<and> shape p \<noteq> shape t then Inl ValueError
                            else Inr (sum_list (map2 (\<lambda>a b. (a - b) * (a - b)) (data p) (data t)))),
       tie_order = (\<lambda>c xs. rev [0..<length xs]),
       set_order = (\<lambda>xs. rev (remdups xs)),
       ndcg_score = (\<lambda>p r. if p = r then 1 else 0),
       novelty_score = (\<lambda>M d u i. real (u + i)),
       prediction_coverage_score = (\<lambda>M c. real (length c)),
       catalog_coverage_score = (\<lambda>M c k. real k),
       personalization_score = (\<lambda>M. sum_list (concat M)),
       roc_auc_score = (\<lambda>a b. 1) \<rparr>"

definition example_batch :: batch where
  "example_batch = ([[0, 10], [1, 20]], [5, 1])"


definition one_row_batch :: batch where
  "one_row_batch = ([[0, 10]], [1])"

definition binary_params :: Params where
  "binary_params =
     Params_class\<lparr>rating_format := BINARY, model_architecture := OTHER_ARCHITECTURE 1\<rparr>"

definition example_model :: RecModel where
  "example_model =
     \<lparr> emb_columns = [''userId'', ''movieId''],
       emb_dict = [''userId'' \<mapsto> \<lparr> dim = 2, weight = [[1, 2], [3, 4]] \<rparr>,
                   ''movieId'' \<mapsto> \<lparr> dim = 2, weight = [[5, 6], [7, 8], [9, 10]] \<rparr>],
       emb_in_size = 4 \<rparr>"

section \<open>Loss selection and the training step\<close>

text \<open>
  Claim C7. The constructor of \<open>RecommenderModule\<close> takes the BCE loss exactly when the
  rating format is BINARY and the architecture is not MATRIX_FACTORIZATION, and the MSE loss
  in every other configuration (BINARY ratings with MATRIX_FACTORIZATION among them).
\<close>

theorem init_selects_loss:
  "(loss_fn (RecommenderModule_init P rec uw) = BCELoss \<longleftrightarrow>
      rating_format P = BINARY \<and> model_architecture P \<noteq> MATRIX_FACTORIZATION) \<and>
   (loss_fn (RecommenderModule_init P rec uw) = MSELoss \<longleftrightarrow>
      \<not> (rating_format P = BINARY \<and> model_architecture P \<noteq> MATRIX_FACTORIZATION))"
  by (simp add: RecommenderModule_init_def)

theorem init_selects_loss_witness:
  "loss_fn (RecommenderModule_init (Params_class\<lparr>rating_format := BINARY\<rparr>) (\<lambda>b. []) False)
     = MSELoss \<and>
   loss_fn (RecommenderModule_init
      (Params_class\<lparr>rating_format := BINARY, model_architecture := OTHER_ARCHITECTURE 1\<rparr>)
      (\<lambda>b. []) False) = BCELoss"
  using init_selects_loss [of "Params_class\<lparr>rating_format := BINARY\<rparr>" "\<lambda>b. []" False]
    init_selects_loss [of
      "Params_class\<lparr>rating_format := BINARY, model_architecture := OTHER_ARCHITECTURE 1\<rparr>"
      "\<lambda>b. []" False]
  by (simp add: Params_class_def)

text \<open>
  Claim C4 fails on the code at a batch of one row when the module holds the BCE loss.
  The recommender returns one prediction; \<open>squeeze\<close> leaves it without axes, the ratings
  keep their one axis, and the BCE loss of the library raises ValueError on tensors of
  different shape (the first hypothesis). So \<open>training_step\<close> raises, although the
  predictions as the recommender returned them have the shape of the ratings.
\<close>

theorem training_step_one_row_raises:
  assumes bce: "\<forall>p t. shape p \<noteq> shape t \<longrightarrow> loss_value L BCELoss p t = Inl ValueError"
    and fn: "loss_fn m = BCELoss"
    and one: "length (recommender m ([row], Some [r])) = 1"
  shows "training_step L m ([row], [r]) tr = Inl ValueError \<and>
         shape (vec (recommender m ([row], Some [r]))) = shape (vec [r]) \<and>
         shape (squeeze (vec (recommender m ([row], Some [r])))) = []"
proof -
  have sq: "shape (squeeze (vec (recommender m ([row], Some [r])))) = []"
    using one by (simp add: squeeze_def vec_def)
  have "shape (squeeze (vec (recommender m ([row], Some [r])))) \<noteq> shape (vec [r])"
    using sq by (simp add: vec_def)
  then have "loss_value L BCELoss (squeeze (vec (recommender m ([row], Some [r])))) (vec [r])
      = Inl ValueError"
    using bce by blast
  then show ?thesis using fn one sq by (simp add: training_step_def Let_def vec_def)
qed

theorem training_step_one_row_raises_witness:
  "training_step example_lib (RecommenderModule_init binary_params example_recommender True)
     one_row_batch [] = Inl ValueError \<and>
   loss_value example_lib BCELoss (vec (example_recommender (fst one_row_batch, Some [1])))
     (vec (snd one_row_batch)) = Inr 7921"
proof -
  let ?m = "RecommenderModule_init binary_params example_recommender True"
  have bce: "\<forall>p t. shape p \<noteq> shape t \<longrightarrow> loss_value example_lib BCELoss p t = Inl ValueError"
    by (simp add: example_lib_def)
  have fn: "loss_fn ?m = BCELoss"
    by (simp add: RecommenderModule_init_def binary_params_def Params_class_def)
  have one: "length (recommender ?m ([[0, 10]], Some [1])) = 1"
    by (simp add: RecommenderModule_init_def example_recommender_def)
  from training_step_one_row_raises[OF bce fn one, of "[]"]
  show ?thesis
    by (simp add: one_row_batch_def example_lib_def example_recommender_def vec_def)
qed


section \<open>Top-k and the loop of the evaluation routine\<close>














section \<open>The evaluation routine on the example batches\<close>

lemma example_run:
  "eval_step example_lib example_module mem1 mem2 example_batch 1 [] =
   (if mem1 1 0 = 0 then Inl NameError
    else Inr \<lparr> user_item_ratings = [[0], [1]], true_item_ratings = [[0], [0]],
         roc_auc_var = Some 1,
         trace = [Display 0 [0] [0],
           PrintLog \<lparr> eval_loss = 7586, ndcg = 1, novelty = 4, prediction_coverage = 2,
               catalog_coverage = 1, personalization = mem1 1 0, roc_auc = 1 \<rparr>,
           PrintLog \<lparr> eval_loss = 7586, ndcg = 1, novelty = 4, prediction_coverage = 2,
               catalog_coverage = 1, personalization = 1, roc_auc = 1 \<rparr>] \<rparr>)"
  by (simp add: eval_step_def eval_iter_def example_batch_def example_lib_def example_module_def
      RecommenderModule_init_def Params_class_def example_recommender_def column_def
      enumerate_eq_zip upt_rec topk_def visit_order_def set_row_def np_empty_def
      set_list_def astype_bool_def np_unique_def squeeze_def vec_def Let_def)


section \<open>What eval_step writes and logs\<close>






text \<open>
  Claim C2. The metrics are computed from the matrix of predicted top-k lists. The
  reference that \<open>ndcg_score\<close> receives is that same matrix flattened, not the ground
  truth: a metric that ignores its second argument and reads the first one twice gives
  the same run, on every input.
\<close>

theorem ndcg_reference_is_prediction:
  "eval_step L m mem1 mem2 b k tr =
   eval_step (L\<lparr>ndcg_score := \<lambda>p r. ndcg_score L p p\<rparr>) m mem1 mem2 b k tr"
proof -
  have "eval_iter (L\<lparr>ndcg_score := \<lambda>p r. ndcg_score L p p\<rparr>) m users items ratings loss k
        = eval_iter L m users items ratings loss k" for users items ratings loss
    by (intro ext) (auto simp: eval_iter_def Let_def split: sum.splits option.splits)
  then show ?thesis by (auto simp: eval_step_def Let_def split: sum.splits)
qed

text \<open>
  Claim C1, at the batch of two ratings by users 0 and 1 with ratings 5 and 1, k = 1. The
  row of ground truth written for user 1 is position 0, the rating given by user 0. The
  only position user 1 rated is position 1, so position 0 is not the item user 1 rated
  highest, and position 1 is.
\<close>

theorem ground_truth_ignores_user:
  "\<exists>st. eval_step example_lib example_module (\<lambda>i j. 7) (\<lambda>i j. 9) example_batch 1 [] = Inr st \<and>
        column 0 (fst example_batch) = Inr [0, 1] \<and>
        true_item_ratings st ! 1 = [0] \<and>
        rated_by [0, 1] 1 = [1] \<and>
        \<not> is_top_k (rated_by [0, 1] 1) (snd example_batch) 1 [0] \<and>
        is_top_k (rated_by [0, 1] 1) (snd example_batch) 1 [1]"
  apply (subst example_run)
  apply (simp add: example_batch_def column_def rated_by_def is_top_k_def upt_rec)
  done

text \<open>
  Claim C3 fails on the code at the batch of two rows, k = 1: the metrics are computed
  inside the loop. Whatever the uninitialised arrays hold, either the first pass ends the
  run with a NameError, or two dictionaries are printed for the one batch; the first is
  computed before user 1 has been processed, over a matrix whose second row is what the
  memory held, and its personalization is that value.
\<close>

theorem metrics_computed_inside_loop:
  "eval_step example_lib example_module mem1 mem2 example_batch 1 [] =
   (if mem1 1 0 = 0 then Inl NameError
    else Inr \<lparr> user_item_ratings = [[0], [1]], true_item_ratings = [[0], [0]],
         roc_auc_var = Some 1,
         trace = [Display 0 [0] [0],
           PrintLog \<lparr> eval_loss = 7586, ndcg = 1, novelty = 4, prediction_coverage = 2,
               catalog_coverage = 1, personalization = mem1 1 0, roc_auc = 1 \<rparr>,
           PrintLog \<lparr> eval_loss = 7586, ndcg = 1, novelty = 4, prediction_coverage = 2,
               catalog_coverage = 1, personalization = 1, roc_auc = 1 \<rparr>] \<rparr>) \<and>
   length (fst example_batch) = 2 \<and>
   personalization_score example_lib [[0], [mem1 1 0]] = mem1 1 0 \<and>
   personalization_score example_lib [[0], [1]] = 1"
  apply (intro conjI)
     apply (rule example_run)
    apply (simp_all add: example_lib_def example_batch_def)
  done





section \<open>Feature embeddings\<close>

lemma take_drop_concat_block:
  assumes "\<forall>x\<in>set xs. length (f x) = c" "i < length xs"
  shows "take c (drop (i * c) (concat (map f xs))) = f (xs ! i)"
  using assms
proof (induction xs arbitrary: i)
  case Nil
  then show ?case by simp
next
  case (Cons x xs)
  show ?case
  proof (cases i)
    case 0
    then show ?thesis using Cons.prems by simp
  next
    case (Suc j)
    then show ?thesis using Cons by simp
  qed
qed

lemma prod_list_filter_ones: "prod_list (filter (\<lambda>n. n \<noteq> 1) xs) = prod_list (xs :: nat list)"
  by (induction xs) auto

lemma embed_loop:
  assumes "map (emb_dict M) names = map Some es"
    and "\<forall>j<length names. list_all (\<lambda>r. off + j < length r \<and>
            r ! (off + j) < length (weight (es ! j))) fs"
  shows "for_each (embed_column M fs) (enumerate off names) acc =
         Inr (acc @ map (\<lambda>j. \<lparr> shape = [length fs, dim (es ! j)],
                               data = concat (map (\<lambda>r. weight (es ! j) ! (r ! (off + j))) fs) \<rparr>)
                     [0..<length names])"
  using assms
proof (induction names arbitrary: off acc es)
  case Nil
  then show ?case by simp
next
  case (Cons x xs)
  from Cons.prems(1) obtain e es' where es: "es = e # es'" and e: "emb_dict M x = Some e"
    and rest: "map (emb_dict M) xs = map Some es'"
    by (cases es) auto
  have h0: "list_all (\<lambda>r. off < length r \<and> r ! off < length (weight e)) fs"
    using Cons.prems(2)[rule_format, of 0] es by simp
  have hs: "\<forall>j<length xs. list_all (\<lambda>r. Suc off + j < length r \<and>
            r ! (Suc off + j) < length (weight (es' ! j))) fs"
  proof (intro allI impI)
    fix j assume "j < length xs"
    then show "list_all (\<lambda>r. Suc off + j < length r \<and>
            r ! (Suc off + j) < length (weight (es' ! j))) fs"
      using Cons.prems(2)[rule_format, of "Suc j"] es by simp
  qed
  have col: "column off fs = Inr (map (\<lambda>r. r ! off) fs)"
    using h0 by (simp add: column_def list_all_iff)
  have fw: "embedding_forward e (map (\<lambda>r. r ! off) fs) =
      Inr \<lparr> shape = [length fs, dim e], data = concat (map (\<lambda>r. weight e ! (r ! off)) fs) \<rparr>"
    using h0 by (simp add: embedding_forward_def list_all_iff comp_def)
  have step: "embed_column M fs acc (off, x) =
      Inr (acc @ [\<lparr> shape = [length fs, dim e],
                     data = concat (map (\<lambda>r. weight e ! (r ! off)) fs) \<rparr>])"
    by (simp add: embed_column_def e col fw)
  have up: "[0..<length (x # xs)] = 0 # map Suc [0..<length xs]"
    by (simp add: upt_conv_Cons map_Suc_upt del: upt_Suc)
  show ?case
    unfolding up using step Cons.IH[OF rest hs] es
    by (simp add: enumerate_simps comp_def)
qed

lemma stack_dim1_2d:
  assumes "ts \<noteq> []" "\<forall>u\<in>set ts. shape u = [n, d]"
  shows "stack_dim1 ts =
         Inr \<lparr> shape = [n, length ts, d],
               data = concat (map (\<lambda>i. concat (map (\<lambda>u. take d (drop (i * d) (data u))) ts))
                        [0..<n]) \<rparr>"
  using assms by (cases ts) (auto simp: stack_dim1_def list_all_iff)

lemma stack_embedded:
  assumes m: "es \<noteq> []"
    and d: "\<forall>e\<in>set es. dim e = d \<and> (\<forall>w\<in>set (weight e). length w = d)"
    and ids: "\<forall>r\<in>set fs. \<forall>j<length es. r ! j < length (weight (es ! j))"
  shows "stack_dim1 (map (\<lambda>j. \<lparr> shape = [length fs, dim (es ! j)],
                               data = concat (map (\<lambda>r. weight (es ! j) ! (r ! j)) fs) \<rparr>)
                     [0..<length es]) =
         Inr \<lparr> shape = [length fs, length es, d],
               data = concat (map (\<lambda>r. concat (map (\<lambda>j. weight (es ! j) ! (r ! j))
                         [0..<length es])) fs) \<rparr>"
proof -
  let ?t = "\<lambda>j. \<lparr> shape = [length fs, dim (es ! j)],
                   data = concat (map (\<lambda>r. weight (es ! j) ! (r ! j)) fs) \<rparr>"
  let ?ts = "map ?t [0..<length es]"
  have dj: "dim (es ! j) = d" if "j < length es" for j using d that by simp
  have ne: "?ts = ?t 0 # map ?t [1..<length es]"
    using m by (simp add: upt_conv_Cons del: upt_Suc)
  have sh: "list_all (\<lambda>u. shape u = [length fs, d]) ?ts"
    using dj by (simp add: list_all_iff)
  have blk: "take d (drop (i * d) (data (?t j))) = weight (es ! j) ! (fs ! i ! j)"
    if "i < length fs" "j < length es" for i j
  proof -
    have "\<forall>r\<in>set fs. length (weight (es ! j) ! (r ! j)) = d"
      using d ids that(2) by (metis nth_mem)
    from take_drop_concat_block[OF this that(1)] show ?thesis by simp
  qed
  have rows: "map (\<lambda>i. concat (map (\<lambda>u. take d (drop (i * d) (data u))) ?ts)) [0..<length fs]
      = map (\<lambda>r. concat (map (\<lambda>j. weight (es ! j) ! (r ! j)) [0..<length es])) fs"
  proof (rule nth_equalityI)
    show "length (map (\<lambda>i. concat (map (\<lambda>u. take d (drop (i * d) (data u))) ?ts)) [0..<length fs])
      = length (map (\<lambda>r. concat (map (\<lambda>j. weight (es ! j) ! (r ! j)) [0..<length es])) fs)"
      by simp
  next
    fix i assume "i < length (map (\<lambda>i. concat (map (\<lambda>u. take d (drop (i * d) (data u))) ?ts)) [0..<length fs])"
    then have i: "i < length fs" by simp
    have eq: "map (\<lambda>u. take d (drop (i * d) (data u))) ?ts
        = map (\<lambda>j. weight (es ! j) ! (fs ! i ! j)) [0..<length es]"
      using blk[OF i] by (simp add: comp_def)
    have "map (\<lambda>i. concat (map (\<lambda>u. take d (drop (i * d) (data u))) ?ts)) [0..<length fs] ! i
      = concat (map (\<lambda>u. take d (drop (i * d) (data u))) ?ts)"
      using i by (simp del: map_map)
    also have "\<dots> = concat (map (\<lambda>j. weight (es ! j) ! (fs ! i ! j)) [0..<length es])"
      by (simp only: eq)
    also have "\<dots> = map (\<lambda>r. concat (map (\<lambda>j. weight (es ! j) ! (r ! j)) [0..<length es])) fs ! i"
      using i by simp
    finally show "map (\<lambda>i. concat (map (\<lambda>u. take d (drop (i * d) (data u))) ?ts)) [0..<length fs] ! i
      = map (\<lambda>r. concat (map (\<lambda>j. weight (es ! j) ! (r ! j)) [0..<length es])) fs ! i" .
  qed
  have ne': "?ts \<noteq> []" using m by simp
  have sh': "\<forall>u\<in>set ?ts. shape u = [length fs, d]" using dj by simp
  show ?thesis
    unfolding stack_dim1_2d[OF ne' sh'] rows by simp
qed

text \<open>
  Claim C6. Let the model have the embedding tables \<open>es\<close> for its columns (at least
  one), all of dimension \<open>d > 0\<close>, and let every row of the batch hold an id inside the
  table for each column. With \<open>concat=True\<close> the function returns a tensor of shape
  (n, m * d) whose i-th row is the concatenation of the embedding vectors of the ids of
  example i; with \<open>concat=False\<close> it returns the same entries in the shape (n, m, d) of
  the stack along the feature axis, less the axes of size one that \<open>squeeze\<close> drops.
\<close>

theorem get_feature_embeddings_rows:
  assumes cols: "map (emb_dict M) (emb_columns M) = map Some es"
    and m: "es \<noteq> []" and dpos: "0 < d"
    and d: "\<forall>e\<in>set es. dim e = d \<and> (\<forall>w\<in>set (weight e). length w = d)"
    and fs: "\<forall>r\<in>set fs. length es \<le> length r \<and> (\<forall>j<length es. r ! j < length (weight (es ! j)))"
    and size: "emb_in_size M = length es * d"
  shows "get_feature_embeddings M (fs, ratings) True =
           Inr \<lparr> shape = [length fs, length es * d],
                 data = concat (map (\<lambda>r. concat (map (\<lambda>j. weight (es ! j) ! (r ! j))
                           [0..<length es])) fs) \<rparr> \<and>
         (\<forall>i<length fs.
            take (length es * d) (drop (i * (length es * d))
              (concat (map (\<lambda>r. concat (map (\<lambda>j. weight (es ! j) ! (r ! j))
                           [0..<length es])) fs))) =
            concat (map (\<lambda>j. weight (es ! j) ! (fs ! i ! j)) [0..<length es])) \<and>
         get_feature_embeddings M (fs, ratings) False =
           Inr \<lparr> shape = filter (\<lambda>s. s \<noteq> 1) [length fs, length es, d],
                 data = concat (map (\<lambda>r. concat (map (\<lambda>j. weight (es ! j) ! (r ! j))
                           [0..<length es])) fs) \<rparr>"
proof -
  let ?row = "\<lambda>r. concat (map (\<lambda>j. weight (es ! j) ! (r ! j)) [0..<length es])"
  have len: "length (emb_columns M) = length es"
    using cols by (metis length_map)
  have ok: "\<forall>j<length (emb_columns M). list_all (\<lambda>r. 0 + j < length r \<and>
            r ! (0 + j) < length (weight (es ! j))) fs"
    using fs len by (auto simp: list_all_iff)
  have loop: "for_each (embed_column M fs) (enumerate 0 (emb_columns M)) [] =
      Inr (map (\<lambda>j. \<lparr> shape = [length fs, dim (es ! j)],
                       data = concat (map (\<lambda>r. weight (es ! j) ! (r ! j)) fs) \<rparr>)
             [0..<length es])"
    using embed_loop[OF cols ok, of "[]"] len by simp
  have ids: "\<forall>r\<in>set fs. \<forall>j<length es. r ! j < length (weight (es ! j))"
    using fs by blast
  note st = stack_embedded[OF m d ids]
  have rowlen: "\<forall>r\<in>set fs. length (?row r) = length es * d"
  proof
    fix r assume r: "r \<in> set fs"
    have "\<And>j. j < length es \<Longrightarrow> length (weight (es ! j) ! (r ! j)) = d"
      using d fs r by (metis nth_mem)
    then have "map (\<lambda>j. length (weight (es ! j) ! (r ! j))) [0..<length es]
        = map (\<lambda>j. d) [0..<length es]"
      by simp
    then have "sum_list (map (\<lambda>j. length (weight (es ! j) ! (r ! j))) [0..<length es])
        = length es * d"
      by (simp only: sum_list_triv length_map length_upt) simp
    then show "length (?row r) = length es * d"
      by (simp add: length_concat comp_def)
  qed
  have pos: "0 < length es * d" using m dpos by simp
  have numel: "prod_list (filter (\<lambda>n. n \<noteq> 1) [length fs, length es, d]) = length fs * (length es * d)"
    unfolding prod_list_filter_ones by simp
  have v: "view_rows (squeeze \<lparr> shape = [length fs, length es, d], data = concat (map ?row fs) \<rparr>)
             (length es * d) =
           Inr \<lparr> shape = [length fs, length es * d], data = concat (map ?row fs) \<rparr>"
    unfolding view_rows_def squeeze_def using pos
    by (simp only: tensor.simps numel) simp
  have A: "get_feature_embeddings M (fs, ratings) True =
           Inr \<lparr> shape = [length fs, length es * d], data = concat (map ?row fs) \<rparr>"
    unfolding get_feature_embeddings_def by (simp add: loop st size v)
  have B: "\<forall>i<length fs. take (length es * d) (drop (i * (length es * d)) (concat (map ?row fs)))
      = ?row (fs ! i)"
    using take_drop_concat_block[OF rowlen] by blast
  have C: "get_feature_embeddings M (fs, ratings) False =
           Inr \<lparr> shape = filter (\<lambda>s. s \<noteq> 1) [length fs, length es, d],
                 data = concat (map ?row fs) \<rparr>"
    unfolding get_feature_embeddings_def by (simp add: loop st squeeze_def)
  show ?thesis using A B C by blast
qed

theorem get_feature_embeddings_rows_witness:
  "get_feature_embeddings example_model ([[0, 2], [1, 0], [1, 1]], [1, 2, 3]) True =
     Inr \<lparr> shape = [3, 4], data = [1, 2, 9, 10, 3, 4, 5, 6, 3, 4, 7, 8] \<rparr> \<and>
   get_feature_embeddings example_model ([[0, 2], [1, 0], [1, 1]], [1, 2, 3]) False =
     Inr \<lparr> shape = [3, 2, 2], data = [1, 2, 9, 10, 3, 4, 5, 6, 3, 4, 7, 8] \<rparr>"
proof -
  let ?es = "[\<lparr> dim = 2, weight = [[1, 2], [3, 4]] \<rparr>,
              \<lparr> dim = 2, weight = [[5, 6], [7, 8], [9, 10::real]] \<rparr>]"
  have cols: "map (emb_dict example_model) (emb_columns example_model) = map Some ?es"
    by (simp add: example_model_def)
  have m: "?es \<noteq> []" by simp
  have dpos: "0 < (2::nat)" by simp
  have d: "\<forall>e\<in>set ?es. dim e = 2 \<and> (\<forall>w\<in>set (weight e). length w = 2)" by simp
  have fs: "\<forall>r\<in>set [[0, 2], [1, 0], [1, 1::nat]]. length ?es \<le> length r \<and>
      (\<forall>j<length ?es. r ! j < length (weight (?es ! j)))"
    by (simp add: less_Suc_eq numeral_2_eq_2)
  have size: "emb_in_size example_model = length ?es * 2" by (simp add: example_model_def)
  from get_feature_embeddings_rows[OF cols m dpos d fs size, of "[1, 2, 3]"]
  show ?thesis by (simp add: upt_rec numeral_2_eq_2)
qed

section \<open>The driver\<close>




end
